theory Spec2Isabelle
  imports Main "HOL-Library.Log_Nat"
begin

section \<open>Data model\<close>

text \<open>
  The cart service of \<^verbatim>\<open>src/services/cart.service.js\<close> works on three Mongoose
  collections (\<^verbatim>\<open>Cart\<close>, \<^verbatim>\<open>Product\<close>, \<^verbatim>\<open>User\<close>) and on the in-memory user object that
  the request carries. The records below have the fields that the service reads and
  writes. Costs, quantities and balances are JavaScript numbers (\<open>number\<close> below); an unset
  balance (\<^verbatim>\<open>undefined\<close>) is \<open>None\<close>. A product's \<^verbatim>\<open>_id\<close> is the field \<open>p_id\<close>; identifiers
  are strings, and the source's \<^verbatim>\<open>ele.product._id == productId\<close> is their equality.
\<close>

subsection \<open>JavaScript numbers\<close>

text \<open>
  A JavaScript number is an IEEE 754 binary64 value: a finite value, an infinity or NaN.
  A finite value is held as the rational it denotes; the arithmetic below rounds every
  result to a binary64 value, whatever rationals it is given. The two zeros are one value
  here: the service tells them apart nowhere (both are falsy, and sums, differences and
  products take them alike up to the sign of a zero result).
\<close>

datatype number = Num rat | PosInf | NegInf | NaN

text \<open>Rounding to the nearest integer, a tie going to the even one.\<close>

definition round_half_even :: "rat \<Rightarrow> int" where
  "round_half_even y =
     (let n = \<lfloor>y\<rfloor>; d = y - of_int n
      in if d < 1 / 2 then n
         else if 1 / 2 < d then n + 1
         else if even n then n else n + 1)"

text \<open>The binary exponent of a positive rational: \<open>2 powi e \<le> x < 2 powi (e + 1)\<close>.\<close>

definition exponent :: "rat \<Rightarrow> int" where
  "exponent x =
     (if 1 \<le> x then bitlen \<lfloor>x\<rfloor> - 1
      else (let k = bitlen \<lfloor>1 / x\<rfloor> in if x = 2 powi (1 - k) then 1 - k else - k))"

text \<open>
  The result of an arithmetic operation: the exact value rounded to the nearest binary64
  value, ties to even. A binary64 value has a significand of 53 bits, so in the binade of
  exponent \<open>e\<close> the values are the multiples of \<open>2 powi (e - 52)\<close>; below the smallest normal
  exponent \<open>-1022\<close> the spacing stays that of the subnormal values. A result that rounds to
  \<open>2 ^ 1024\<close> or beyond is an infinity.
\<close>

definition round_double :: "rat \<Rightarrow> number" where
  "round_double x =
     (if x = 0 then Num 0
      else
        (let e = max (exponent \<bar>x\<bar>) (- 1022);
             u = 2 powi (e - 52);
             r = of_int (round_half_even (\<bar>x\<bar> / u)) * u
         in if 2 ^ 1024 \<le> r then (if 0 < x then PosInf else NegInf)
            else Num (sgn x * r)))"

text \<open>The sign of a number, and the infinity of a sign (none for sign 0).\<close>

fun sign_of :: "number \<Rightarrow> rat" where
  "sign_of (Num a) = sgn a"
| "sign_of PosInf = 1"
| "sign_of NegInf = - 1"
| "sign_of NaN = 0"

definition inf_of_sign :: "rat \<Rightarrow> number" where
  "inf_of_sign sg = (if 0 < sg then PosInf else if sg < 0 then NegInf else NaN)"

text \<open>\<^verbatim>\<open>x * y\<close>, \<^verbatim>\<open>x + y\<close>, \<^verbatim>\<open>-x\<close> and \<^verbatim>\<open>x - y\<close> on numbers.\<close>

fun js_mul :: "number \<Rightarrow> number \<Rightarrow> number" where
  "js_mul (Num a) (Num b) = round_double (a * b)"
| "js_mul NaN y = NaN"
| "js_mul x NaN = NaN"
| "js_mul x y = inf_of_sign (sign_of x * sign_of y)"

fun js_add :: "number \<Rightarrow> number \<Rightarrow> number" where
  "js_add (Num a) (Num b) = round_double (a + b)"
| "js_add NaN y = NaN"
| "js_add x NaN = NaN"
| "js_add PosInf NegInf = NaN"
| "js_add NegInf PosInf = NaN"
| "js_add PosInf y = PosInf"
| "js_add NegInf y = NegInf"
| "js_add (Num a) y = y"

fun js_neg :: "number \<Rightarrow> number" where
  "js_neg (Num a) = Num (- a)"
| "js_neg PosInf = NegInf"
| "js_neg NegInf = PosInf"
| "js_neg NaN = NaN"

definition js_sub :: "number \<Rightarrow> number \<Rightarrow> number" where
  "js_sub x y = js_add x (js_neg y)"

text \<open>\<^verbatim>\<open>undefined\<close> read as a number is NaN.\<close>

definition to_number :: "number option \<Rightarrow> number" where
  "to_number v = (case v of None \<Rightarrow> NaN | Some x \<Rightarrow> x)"

text \<open>\<^verbatim>\<open>!x\<close>: true for \<^verbatim>\<open>undefined\<close>, for zero and for NaN.\<close>

definition falsy :: "number option \<Rightarrow> bool" where
  "falsy v =
     (case v of
        None \<Rightarrow> True
      | Some (Num a) \<Rightarrow> a = 0
      | Some NaN \<Rightarrow> True
      | Some PosInf \<Rightarrow> False
      | Some NegInf \<Rightarrow> False)"

subsection \<open>Errors and documents\<close>

datatype httpStatus = BAD_REQUEST | NOT_FOUND | INTERNAL_SERVER_ERROR

text \<open>
  Everything an operation can throw: an \<^verbatim>\<open>ApiError\<close> with its status and message, the
  \<^verbatim>\<open>TypeError\<close> that JavaScript raises when a property of \<^verbatim>\<open>undefined\<close> is assigned, or
  the error a store call rejects with, which the service does not catch.
\<close>

datatype error = ApiError httpStatus string | TypeError | StoreError

record product =
  p_id :: string
  cost :: number

record cartItem =
  product :: product
  quantity :: number

record cart =
  email :: string
  cartItems :: "cartItem list"

text \<open>
  Modelled from the spec: the user model is not among the sources. The spec gives the
  user an identity, a numeric wallet balance and an address-presence flag that
  \<^verbatim>\<open>hasSetNonDefaultAddress()\<close> reports; the flag is a field here.
\<close>

record user =
  email :: string
  walletMoney :: "number option"
  hasSetNonDefaultAddress :: bool

text \<open>What a service function returns: a cart document, or nothing.\<close>

datatype retval = Undefined | RCart cart

text \<open>
  Modelled from the spec: the Mongoose models behind \<^verbatim>\<open>Cart\<close>, \<^verbatim>\<open>Product\<close> and \<^verbatim>\<open>User\<close> are
  not among the sources. \<open>Products\<close> is the product collection, read with a query on
  \<^verbatim>\<open>_id\<close>. \<open>Carts\<close> holds one cart document per user (the spec: one cart per user, keyed
  by the user's identity): a map from the email to the line items of the document, so
  that a document read by \<^verbatim>\<open>findOne\<close> and written by \<^verbatim>\<open>save\<close> is the same document. \<open>Users\<close>
  is the user collection by email. \<open>Cart_create_outcome\<close> is what \<^verbatim>\<open>Cart.create\<close> does, a
  parameter of the store: it stores the document and hands it back, or hands back a falsy
  value (the case that the source tests for), or rejects.
\<close>

datatype create_outcome = Created | ReturnsFalsy | Rejects

record world =
  Products :: "product list"
  Carts :: "string \<rightharpoonup> cartItem list"
  Users :: "string \<rightharpoonup> user"
  Cart_create_outcome :: create_outcome

section \<open>Store operations\<close>

definition Product_findOne :: "world \<Rightarrow> string \<Rightarrow> product option" where
  "Product_findOne s productId = find (\<lambda>p. p_id p = productId) (Products s)"

definition Cart_findOne :: "world \<Rightarrow> string \<Rightarrow> cart option" where
  "Cart_findOne s e =
     (case Carts s e of
        None \<Rightarrow> None
      | Some items \<Rightarrow> Some \<lparr>cart.email = e, cartItems = items\<rparr>)"

definition Cart_save :: "cart \<Rightarrow> world \<Rightarrow> world" where
  "Cart_save c s = s\<lparr>Carts := (Carts s)(cart.email c \<mapsto> cartItems c)\<rparr>"

definition Cart_create :: "cart \<Rightarrow> world \<Rightarrow> (error + cart option) \<times> world" where
  "Cart_create c s =
     (case Cart_create_outcome s of
        Created \<Rightarrow> (Inr (Some c), Cart_save c s)
      | ReturnsFalsy \<Rightarrow> (Inr None, s)
      | Rejects \<Rightarrow> (Inl StoreError, s))"

section \<open>JavaScript helpers\<close>

text \<open>
  \<^verbatim>\<open>Array.prototype.indexOf\<close>: the first position of the element, or \<open>-1\<close>. JavaScript
  compares objects by identity and the model by value; the service asks for the position
  of the first element that \<^verbatim>\<open>find\<close> accepted, and no element before it is equal to it
  (\<open>find_indexOf\<close> below).
\<close>

fun indexOf :: "'a list \<Rightarrow> 'a \<Rightarrow> int" where
  "indexOf [] x = -1"
| "indexOf (y # ys) x =
     (if y = x then 0 else (let i = indexOf ys x in if i < 0 then -1 else i + 1))"

text \<open>
  \<^verbatim>\<open>xs.splice(start, 1)\<close>: a negative start counts from the end, a start beyond the end
  removes nothing.
\<close>

definition splice1 :: "'a list \<Rightarrow> int \<Rightarrow> 'a list" where
  "splice1 xs start =
     (let len = int (length xs);
          k = (if start < 0 then max (len + start) 0 else min start len)
      in take (nat k) xs @ drop (nat k + 1) xs)"

text \<open>
  \<^verbatim>\<open>xs[idx].quantity = q\<close>: outside the array \<^verbatim>\<open>xs[idx]\<close> is \<^verbatim>\<open>undefined\<close> and the
  assignment throws.
\<close>

definition set_quantity :: "cartItem list \<Rightarrow> int \<Rightarrow> number \<Rightarrow> error + cartItem list" where
  "set_quantity xs idx q =
     (if 0 \<le> idx \<and> idx < int (length xs)
      then Inr (xs[nat idx := (xs ! nat idx)\<lparr>quantity := q\<rparr>])
      else Inl TypeError)"

section \<open>The cart service\<close>

definition getCartByUser :: "user \<Rightarrow> world \<Rightarrow> (error + retval) \<times> world" where
  "getCartByUser usr s =
     (case Cart_findOne s (user.email usr) of
        None \<Rightarrow> (Inl (ApiError NOT_FOUND ''User does not have a cart''), s)
      | Some c \<Rightarrow> (Inr (RCart c), s))"

definition addProductToCart :: "user \<Rightarrow> string \<Rightarrow> number \<Rightarrow> world \<Rightarrow> (error + retval) \<times> world" where
  "addProductToCart usr productId qty s =
     (case Product_findOne s productId of
        None \<Rightarrow> (Inl (ApiError BAD_REQUEST ''Product doesn't exist in database''), s)
      | Some prd \<Rightarrow>
          (case Cart_findOne s (user.email usr) of
             None \<Rightarrow>
               (case Cart_create
                       \<lparr>cart.email = user.email usr,
                        cartItems = [\<lparr>product = prd, quantity = qty\<rparr>]\<rparr> s of
                  (Inl e, s1) \<Rightarrow> (Inl e, s1)
                | (Inr None, s1) \<Rightarrow>
                    (Inl (ApiError INTERNAL_SERVER_ERROR ''Internal Server Error''), s1)
                | (Inr (Some userCart), s1) \<Rightarrow>
                    (Inr (RCart userCart), Cart_save userCart s1))
           | Some userCart \<Rightarrow>
               (case find (\<lambda>ele. p_id (product ele) = productId) (cartItems userCart) of
                  Some item \<Rightarrow>
                    (Inl (ApiError BAD_REQUEST
                       ''Product already in cart. Use the cart sidebar to update or remove product from cart''), s)
                | None \<Rightarrow>
                    (let userCart' = userCart\<lparr>cartItems :=
                           cartItems userCart @ [\<lparr>product = prd, quantity = qty\<rparr>]\<rparr>
                     in (Inr (RCart userCart'), Cart_save userCart' s)))))"

definition updateProductInCart :: "user \<Rightarrow> string \<Rightarrow> number \<Rightarrow> world \<Rightarrow> (error + retval) \<times> world" where
  "updateProductInCart usr productId qty s =
     (case Cart_findOne s (user.email usr) of
        None \<Rightarrow>
          (Inl (ApiError BAD_REQUEST
             ''User does not have a cart. Use POST to create cart and add a product''), s)
      | Some c \<Rightarrow>
          (case Product_findOne s productId of
             None \<Rightarrow> (Inl (ApiError BAD_REQUEST ''Product doesn't exist in database''), s)
           | Some prd \<Rightarrow>
               (case find (\<lambda>ele. p_id (product ele) = productId) (cartItems c) of
                  None \<Rightarrow> (Inl (ApiError BAD_REQUEST ''Product not in cart''), s)
                | Some item \<Rightarrow>
                    (case set_quantity (cartItems c) (indexOf (cartItems c) item) qty of
                       Inl e \<Rightarrow> (Inl e, s)
                     | Inr items' \<Rightarrow>
                         (let c' = c\<lparr>cartItems := items'\<rparr>
                          in (Inr (RCart c'), Cart_save c' s))))))"

definition deleteProductFromCart :: "user \<Rightarrow> string \<Rightarrow> world \<Rightarrow> (error + retval) \<times> world" where
  "deleteProductFromCart usr productId s =
     (case Cart_findOne s (user.email usr) of
        None \<Rightarrow>
          (Inl (ApiError BAD_REQUEST
             ''User does not have a cart. Use POST to create cart and add a product''), s)
      | Some c \<Rightarrow>
          (case find (\<lambda>ele. p_id (product ele) = productId) (cartItems c) of
             None \<Rightarrow> (Inl (ApiError BAD_REQUEST ''Product not in cart''), s)
           | Some item \<Rightarrow>
               (let c' = c\<lparr>cartItems := splice1 (cartItems c) (indexOf (cartItems c) item)\<rparr>
                in (Inr (RCart c'), Cart_save c' s))))"

text \<open>
  The loop of \<^verbatim>\<open>checkout\<close>: \<^verbatim>\<open>sum += ele.product.cost * ele.quantity\<close> from \<^verbatim>\<open>sum = 0\<close>, each
  product and each partial sum rounded as JavaScript rounds them.
\<close>

definition cart_total :: "cartItem list \<Rightarrow> number" where
  "cart_total items =
     foldl (\<lambda>sum ele. js_add sum (js_mul (cost (product ele)) (quantity ele))) (Num 0) items"

text \<open>
  \<^verbatim>\<open>checkout\<close> also assigns to the user object it was given, so the object is returned
  next to the stores. The only store it writes is the cart's (\<^verbatim>\<open>cart.save()\<close>).
\<close>

definition checkout :: "user \<Rightarrow> world \<Rightarrow> (error + retval) \<times> user \<times> world" where
  "checkout usr s =
     (case Cart_findOne s (user.email usr) of
        None \<Rightarrow> (Inl (ApiError NOT_FOUND ''User does not have a cart''), usr, s)
      | Some c \<Rightarrow>
          if length (cartItems c) = 0
          then (Inl (ApiError BAD_REQUEST ''User cart is empty''), usr, s)
          else if \<not> hasSetNonDefaultAddress usr
          then (Inl (ApiError BAD_REQUEST ''Default address is not set''), usr, s)
          else if falsy (walletMoney usr)
          then (Inl (ApiError BAD_REQUEST ''Insufficient balance''), usr, s)
          else
            (let sum = cart_total (cartItems c);
                 usr' = usr\<lparr>walletMoney := Some (js_sub (to_number (walletMoney usr)) sum)\<rparr>;
                 c' = c\<lparr>cartItems := []\<rparr>
             in (Inr Undefined, usr', Cart_save c' s)))"

section \<open>The cart invariant\<close>

text \<open>
  The data model's invariant on the line items of a cart, in its two parts, and what it
  means for the cart stored under an email (a missing cart satisfies it).
\<close>

definition unique_products :: "cartItem list \<Rightarrow> bool" where
  "unique_products items = distinct (map (\<lambda>ele. p_id (product ele)) items)"

text \<open>\<^verbatim>\<open>x >= 1\<close> on a number.\<close>

definition at_least_one :: "number \<Rightarrow> bool" where
  "at_least_one x =
     (case x of Num a \<Rightarrow> 1 \<le> a | PosInf \<Rightarrow> True | NegInf \<Rightarrow> False | NaN \<Rightarrow> False)"

definition quantities_positive :: "cartItem list \<Rightarrow> bool" where
  "quantities_positive items = list_all (\<lambda>ele. at_least_one (quantity ele)) items"

definition cart_inv :: "cartItem list \<Rightarrow> bool" where
  "cart_inv items = (quantities_positive items \<and> unique_products items)"

definition cart_at :: "(cartItem list \<Rightarrow> bool) \<Rightarrow> world \<Rightarrow> string \<Rightarrow> bool" where
  "cart_at P s e = (case Carts s e of None \<Rightarrow> True | Some items \<Rightarrow> P items)"

text \<open>The number of line items of a cart that hold a given product.\<close>

definition count_product :: "string \<Rightarrow> cartItem list \<Rightarrow> nat" where
  "count_product productId items =
     length (filter (\<lambda>ele. p_id (product ele) = productId) items)"

section \<open>The total in exact arithmetic\<close>

text \<open>
  The sum of cost times quantity over the line items as a rational number, to compare the
  loop of \<^verbatim>\<open>checkout\<close> with; \<open>abs_total\<close> adds the absolute values of the products. A
  number is an integer when it is finite and has no fractional part.
\<close>

fun value_of :: "number \<Rightarrow> rat" where
  "value_of (Num a) = a"
| "value_of PosInf = 0"
| "value_of NegInf = 0"
| "value_of NaN = 0"

definition is_integer :: "number \<Rightarrow> bool" where
  "is_integer x =
     (case x of Num a \<Rightarrow> of_int \<lfloor>a\<rfloor> = a | PosInf \<Rightarrow> False | NegInf \<Rightarrow> False | NaN \<Rightarrow> False)"

definition exact_total :: "cartItem list \<Rightarrow> rat" where
  "exact_total items =
     (\<Sum>ele\<leftarrow>items. value_of (cost (product ele)) * value_of (quantity ele))"

definition abs_total :: "cartItem list \<Rightarrow> rat" where
  "abs_total items =
     (\<Sum>ele\<leftarrow>items. \<bar>value_of (cost (product ele)) * value_of (quantity ele)\<bar>)"

definition integer_items :: "cartItem list \<Rightarrow> bool" where
  "integer_items items =
     list_all (\<lambda>ele. is_integer (cost (product ele)) \<and> is_integer (quantity ele)) items"

section \<open>Example data\<close>

text \<open>The cart of the spec's checkout example, and a user with a wallet of 100.\<close>

definition productA :: product where
  "productA = \<lparr>p_id = ''A'', cost = Num 10\<rparr>"

definition productB :: product where
  "productB = \<lparr>p_id = ''B'', cost = Num 5\<rparr>"

definition alice :: user where
  "alice =
     \<lparr>user.email = ''alice'', walletMoney = Some (Num 100), hasSetNonDefaultAddress = True\<rparr>"

definition example_items :: "cartItem list" where
  "example_items =
     [\<lparr>product = productA, quantity = Num 2\<rparr>, \<lparr>product = productB, quantity = Num 1\<rparr>]"

definition no_carts :: world where
  "no_carts =
     \<lparr>Products = [productA, productB], Carts = Map.empty,
      Users = [''alice'' \<mapsto> alice], Cart_create_outcome = Created\<rparr>"

definition with_cart :: "cartItem list \<Rightarrow> world" where
  "with_cart items = no_carts\<lparr>Carts := [''alice'' \<mapsto> items]\<rparr>"

text \<open>A line item whose cost times quantity, 94906267 squared, lies above \<open>2 ^ 53\<close>.\<close>

definition large_items :: "cartItem list" where
  "large_items =
     [\<lparr>product = \<lparr>p_id = ''A'', cost = Num 94906267\<rparr>, quantity = Num 94906267\<rparr>]"

lemmas example_defs =
  productA_def productB_def alice_def example_items_def no_carts_def with_cart_def
  large_items_def

section \<open>Facts about JavaScript numbers\<close>

text \<open>
  The exponent brackets its argument, a rounded value lies within half a unit in the last
  place of the exact one, and an integer of magnitude up to \<open>2 ^ 53\<close> is its own rounding.
  A fraction is rounded as JavaScript rounds it: \<^verbatim>\<open>0.1 * 3\<close> is \<^verbatim>\<open>0.30000000000000004\<close>.
\<close>

lemma round_half_even_of_int: "round_half_even (of_int k) = k"
  by (simp add: round_half_even_def)

lemma round_half_even_near: "\<bar>of_int (round_half_even y) - y\<bar> \<le> 1 / 2"
proof -
  have "of_int \<lfloor>y\<rfloor> \<le> y" and "y < of_int \<lfloor>y\<rfloor> + 1"
    by linarith+
  then show ?thesis
    unfolding round_half_even_def Let_def
    by (auto simp: abs_le_iff)
qed

lemma exponent_of_int: "1 \<le> m \<Longrightarrow> exponent (of_int m) = bitlen m - 1"
  by (simp add: exponent_def)

lemma round_exact:
  assumes "0 < u" and "y / u = of_int k"
  shows "of_int (round_half_even (y / u)) * u = y"
proof -
  from assms(2) have "round_half_even (y / u) = k"
    by (simp add: round_half_even_of_int)
  with assms show ?thesis
    by (simp add: field_simps)
qed

lemma round_double_of_int:
  assumes "\<bar>n\<bar> \<le> 2 ^ 53"
  shows "round_double (of_int n) = Num (of_int n)"
proof (cases "n = 0")
  case True
  then show ?thesis by (simp add: round_double_def)
next
  case False
  define m where "m = \<bar>n\<bar>"
  define b where "b = bitlen m"
  from False have m1: "1 \<le> m" by (simp add: m_def)
  from assms have m53: "m \<le> 2 ^ 53" by (simp add: m_def)
  have absx: "\<bar>rat_of_int n\<bar> = of_int m" by (simp add: m_def)
  from m1 have lo: "2 ^ nat (b - 1) \<le> m" and hi: "m < 2 ^ nat b"
    using bitlen_bounds [of m] by (simp_all add: b_def)
  have b1: "1 \<le> b"
    using m1 bitlen_ge_iff_power [of 1 m] by (simp add: b_def)
  have b54: "b \<le> 54"
    using m53 bitlen_le_iff_power [of m 54] by (simp add: b_def)
  have e: "max (exponent \<bar>rat_of_int n\<bar>) (- 1022) = b - 1"
    using b1 m1 by (simp add: absx exponent_of_int b_def)
  let ?u = "(2::rat) powi (b - 1 - 52)"
  have upos: "0 < ?u" by simp
  have "\<exists>k. rat_of_int m / ?u = of_int k"
  proof (cases "b \<le> 53")
    case True
    then have "?u = 1 / 2 ^ nat (53 - b)"
      using power_int_minus_divide [of "2::rat" "53 - b"] by (simp add: power_int_nonneg_exp)
    then have "rat_of_int m / ?u = of_int (m * 2 ^ nat (53 - b))"
      by simp
    then show ?thesis ..
  next
    case False
    with b54 have b: "b = 54" by simp
    with lo m53 have "m = 2 ^ 53" by simp
    with b have "rat_of_int m / ?u = of_int (2 ^ 52)"
      by simp
    then show ?thesis ..
  qed
  then obtain k where k: "rat_of_int m / ?u = of_int k" ..
  have r: "of_int (round_half_even (rat_of_int m / ?u)) * ?u = of_int m"
    using upos k by (rule round_exact)
  have small: "\<not> (2 ^ 1024 \<le> rat_of_int m)"
  proof -
    have "rat_of_int m \<le> 2 ^ 53" using m53
      by (metis of_int_le_iff of_int_numeral of_int_power)
    also have "\<dots> < 2 ^ 1024" by (rule power_strict_increasing) simp_all
    finally show ?thesis by simp
  qed
  have "sgn (rat_of_int n) * of_int m = of_int n"
    by (cases "0 < n") (simp_all add: m_def sgn_if)
  with False e r small absx show ?thesis
    by (simp add: round_double_def Let_def)
qed

lemma tenth_times_three:
  "js_mul (round_double (1 / 10)) (Num 3) = Num (5404319552844596 / 2 ^ 54)"
  by code_simp

lemma round_double_Ints:
  "x \<in> \<int> \<Longrightarrow> \<bar>x\<bar> \<le> 2 ^ 53 \<Longrightarrow> round_double x = Num x"
proof -
  assume "x \<in> \<int>" and b: "\<bar>x\<bar> \<le> 2 ^ 53"
  then obtain n where x: "x = of_int n" by (auto elim: Ints_cases)
  with b have "rat_of_int \<bar>n\<bar> \<le> of_int (2 ^ 53)" by simp
  then have "\<bar>n\<bar> \<le> 2 ^ 53" by (simp only: of_int_le_iff)
  with x show ?thesis by (simp add: round_double_of_int)
qed


lemma exponent_bounds:
  assumes "0 < x"
  shows "2 powi exponent x \<le> x \<and> x < 2 powi (exponent x + 1)"
proof (cases "1 \<le> x")
  case True
  define m where "m = \<lfloor>x\<rfloor>"
  define b where "b = bitlen m"
  from True have m1: "1 \<le> m" by (simp add: m_def le_floor_iff)
  then have lo: "2 ^ nat (b - 1) \<le> m" and hi: "m < 2 ^ nat b"
    using bitlen_bounds [of m] by (simp_all add: b_def)
  have b1: "1 \<le> b"
    using m1 bitlen_ge_iff_power [of 1 m] by (simp add: b_def)
  have "rat_of_int (2 ^ nat (b - 1)) \<le> of_int m"
    using lo by (simp only: of_int_le_iff)
  also have "\<dots> \<le> x" by (simp add: m_def)
  finally have l: "2 powi (b - 1) \<le> x"
    using b1 by (simp add: power_int_nonneg_exp)
  have "m + 1 \<le> 2 ^ nat b" using hi by simp
  then have "rat_of_int (m + 1) \<le> of_int (2 ^ nat b)"
    by (simp only: of_int_le_iff)
  moreover have "x < rat_of_int (m + 1)"
    unfolding m_def by linarith
  ultimately have h: "x < 2 powi b"
    using b1 by (simp add: power_int_nonneg_exp)
  from True l h show ?thesis
    by (simp add: exponent_def m_def b_def)
next
  case False
  define m where "m = \<lfloor>1 / x\<rfloor>"
  define k where "k = bitlen m"
  from False assms have "1 \<le> 1 / x" by (simp add: field_simps)
  then have m1: "1 \<le> m" by (simp add: m_def le_floor_iff)
  then have lo: "2 ^ nat (k - 1) \<le> m" and hi: "m < 2 ^ nat k"
    using bitlen_bounds [of m] by (simp_all add: k_def)
  have k1: "1 \<le> k"
    using m1 bitlen_ge_iff_power [of 1 m] by (simp add: k_def)
  have "rat_of_int (2 ^ nat (k - 1)) \<le> of_int m"
    using lo by (simp only: of_int_le_iff)
  also have "\<dots> \<le> 1 / x" by (simp add: m_def)
  finally have "2 ^ nat (k - 1) \<le> 1 / x" by simp
  with assms have "x \<le> 1 / 2 ^ nat (k - 1)"
    by (simp add: field_simps)
  moreover have "(2::rat) powi (1 - k) = 1 / 2 ^ nat (k - 1)"
    using k1 power_int_minus_divide [of "2::rat" "k - 1"] by (simp add: power_int_nonneg_exp)
  ultimately have up: "x \<le> 2 powi (1 - k)" by simp
  have "m + 1 \<le> 2 ^ nat k" using hi by simp
  then have "rat_of_int (m + 1) \<le> of_int (2 ^ nat k)"
    by (simp only: of_int_le_iff)
  moreover have "1 / x < rat_of_int (m + 1)"
    unfolding m_def by linarith
  ultimately have "1 / x < 2 ^ nat k" by simp
  with assms have "1 / 2 ^ nat k < x"
    by (simp add: field_simps)
  moreover have "(2::rat) powi (- k) = 1 / 2 ^ nat k"
    using k1 power_int_minus_divide [of "2::rat" k] by (simp add: power_int_nonneg_exp)
  ultimately have dn: "2 powi (- k) < x" by simp
  have step: "(2::rat) powi (1 - k) < 2 powi (1 - k + 1)"
    by (rule power_int_strict_increasing) simp_all
  have ex: "exponent x = (if x = 2 powi (1 - k) then 1 - k else - k)"
    using False by (simp add: exponent_def m_def [symmetric] k_def [symmetric] Let_def)
  show ?thesis
  proof (cases "x = 2 powi (1 - k)")
    case True
    then have "exponent x = 1 - k" unfolding ex by (rule if_P)
    moreover have "2 powi (1 - k) \<le> x" using True by simp
    moreover have "x < 2 powi (1 - k + 1)" using step True by simp
    ultimately show ?thesis by simp
  next
    case ne: False
    then have "exponent x = - k" unfolding ex by (rule if_not_P)
    moreover have "x < 2 powi (- k + 1)" using up ne by (simp add: add.commute)
    ultimately show ?thesis using dn by simp
  qed
qed

lemma round_double_near:
  assumes "round_double x = Num r"
  shows "\<bar>r - x\<bar> \<le> 2 powi (max (exponent \<bar>x\<bar>) (- 1022) - 53)"
proof (cases "x = 0")
  case True
  with assms show ?thesis by (simp add: round_double_def)
next
  case False
  define u :: rat where "u = 2 powi (max (exponent \<bar>x\<bar>) (- 1022) - 52)"
  define n where "n = round_half_even (\<bar>x\<bar> / u)"
  have upos: "0 < u" by (simp add: u_def)
  from assms False have r: "r = sgn x * (of_int n * u)"
    by (simp add: round_double_def Let_def u_def n_def split: if_splits)
  have "\<bar>of_int n - \<bar>x\<bar> / u\<bar> \<le> 1 / 2"
    unfolding n_def by (rule round_half_even_near)
  then have "\<bar>of_int n - \<bar>x\<bar> / u\<bar> * u \<le> 1 / 2 * u"
    using upos by (simp only: mult_le_cancel_right_pos)
  moreover have "\<bar>of_int n - \<bar>x\<bar> / u\<bar> * u = \<bar>of_int n * u - \<bar>x\<bar>\<bar>"
  proof -
    have "(of_int n - \<bar>x\<bar> / u) * u = of_int n * u - \<bar>x\<bar>"
      using upos by (simp add: left_diff_distrib)
    then have "\<bar>of_int n * u - \<bar>x\<bar>\<bar> = \<bar>of_int n - \<bar>x\<bar> / u\<bar> * \<bar>u\<bar>"
      by (simp only: abs_mult [symmetric])
    also have "\<bar>u\<bar> = u" using upos by simp
    finally show ?thesis by simp
  qed
  ultimately have "\<bar>of_int n * u - \<bar>x\<bar>\<bar> \<le> u / 2" by simp
  moreover have "\<bar>r - x\<bar> = \<bar>of_int n * u - \<bar>x\<bar>\<bar>"
    using False unfolding r by (cases "0 < x") (simp_all add: sgn_if abs_minus_commute)
  moreover have "u / 2 = 2 powi (max (exponent \<bar>x\<bar>) (- 1022) - 53)"
    using power_int_diff [of "2::rat" "max (exponent \<bar>x\<bar>) (- 1022) - 52" 1]
    by (simp add: u_def)
  ultimately show ?thesis by simp
qed

section \<open>Facts about the helpers\<close>

lemma find_indexOf:
  "find P xs = Some x \<Longrightarrow>
     \<exists>i<length xs. indexOf xs x = int i \<and> xs ! i = x \<and> P x \<and> (\<forall>j<i. \<not> P (xs ! j))"
proof (induction xs)
  case Nil
  then show ?case by simp
next
  case (Cons y ys)
  show ?case
  proof (cases "P y")
    case True
    with Cons.prems have "y = x" by simp
    with True show ?thesis by auto
  next
    case False
    with Cons.prems have f: "find P ys = Some x" by simp
    from Cons.IH [OF f] obtain i where i: "i < length ys" "indexOf ys x = int i"
      "ys ! i = x" "P x" "\<forall>j<i. \<not> P (ys ! j)" by blast
    from False i(4) have ne: "y \<noteq> x" by auto
    have "\<forall>j<Suc i. \<not> P ((y # ys) ! j)"
      using False i(5) by (auto simp: less_Suc_eq_0_disj)
    with i ne show ?thesis
      by (intro exI [of _ "Suc i"]) (simp add: Let_def)
  qed
qed

lemma find_None_iff_ids:
  "find (\<lambda>ele. p_id (product ele) = productId) items = None
     \<longleftrightarrow> productId \<notin> set (map (\<lambda>ele. p_id (product ele)) items)"
  by (auto simp: find_None_iff)

lemma splice1_in_range:
  "i < length xs \<Longrightarrow> splice1 xs (int i) = take i xs @ drop (Suc i) xs"
  by (simp add: splice1_def Let_def min_def)

lemma set_quantity_in_range:
  "i < length xs \<Longrightarrow> set_quantity xs (int i) q = Inr (xs[i := (xs ! i)\<lparr>quantity := q\<rparr>])"
  by (simp add: set_quantity_def)

lemma Product_findOne_id:
  "Product_findOne s productId = Some prd \<Longrightarrow> p_id prd = productId"
  by (auto simp: Product_findOne_def find_Some_iff)

lemma find_Some_ids:
  "productId \<in> set (map (\<lambda>ele. p_id (product ele)) items) \<Longrightarrow>
     \<exists>item. find (\<lambda>ele. p_id (product ele) = productId) items = Some item"
  using find_None_iff_ids [of productId items] by (cases "find (\<lambda>ele. p_id (product ele) = productId) items") auto

lemma count_product_absent:
  "productId \<notin> set (map (\<lambda>ele. p_id (product ele)) items) \<Longrightarrow> count_product productId items = 0"
  by (induction items) (auto simp: count_product_def)

lemma find_appended:
  "p_id (product x) = productId \<Longrightarrow>
     \<exists>item. find (\<lambda>ele. p_id (product ele) = productId) (items @ [x]) = Some item"
  by (induction items) auto

section \<open>What each operation writes\<close>


lemma getCartByUser_state: "snd (getCartByUser usr s) = s"
  by (simp add: getCartByUser_def split: option.splits)

lemma addProductToCart_state:
  "snd (addProductToCart usr productId qty s) = s \<or>
   (\<exists>prd. p_id prd = productId \<and>
      (snd (addProductToCart usr productId qty s) =
         s\<lparr>Carts := (Carts s)(user.email usr \<mapsto> [\<lparr>product = prd, quantity = qty\<rparr>])\<rparr> \<or>
       (\<exists>items. Carts s (user.email usr) = Some items \<and>
          productId \<notin> set (map (\<lambda>ele. p_id (product ele)) items) \<and>
          snd (addProductToCart usr productId qty s) =
            s\<lparr>Carts := (Carts s)(user.email usr \<mapsto> items @ [\<lparr>product = prd, quantity = qty\<rparr>])\<rparr>)))"
proof (cases "Product_findOne s productId")
  case None
  then show ?thesis by (simp add: addProductToCart_def)
next
  case (Some prd)
  note pid = Product_findOne_id [OF Some]
  show ?thesis
  proof (cases "Carts s (user.email usr)")
    case None
    with Some pid show ?thesis
      by (cases "Cart_create_outcome s")
        (auto simp: addProductToCart_def Cart_findOne_def Cart_create_def Cart_save_def)
  next
    case items: (Some items)
    show ?thesis
    proof (cases "find (\<lambda>ele. p_id (product ele) = productId) items")
      case None
      then have "productId \<notin> set (map (\<lambda>ele. p_id (product ele)) items)"
        using find_None_iff_ids [of productId items] by blast
      with None Some items pid show ?thesis
        by (auto simp: addProductToCart_def Cart_findOne_def Cart_save_def)
    next
      case (Some item)
      with \<open>Product_findOne s productId = Some prd\<close> items show ?thesis
        by (simp add: addProductToCart_def Cart_findOne_def)
    qed
  qed
qed

lemma updateProductInCart_state:
  "snd (updateProductInCart usr productId qty s) = s \<or>
   (\<exists>items idx. Carts s (user.email usr) = Some items \<and> idx < length items \<and>
      snd (updateProductInCart usr productId qty s) =
        s\<lparr>Carts := (Carts s)(user.email usr \<mapsto> items[idx := (items ! idx)\<lparr>quantity := qty\<rparr>])\<rparr>)"
proof (cases "Carts s (user.email usr)")
  case None
  then show ?thesis by (simp add: updateProductInCart_def Cart_findOne_def)
next
  case items: (Some items)
  show ?thesis
  proof (cases "find (\<lambda>ele. p_id (product ele) = productId) items")
    case None
    with items show ?thesis
      by (simp add: updateProductInCart_def Cart_findOne_def split: option.splits)
  next
    case (Some item)
    from find_indexOf [OF Some] obtain idx
      where idx: "idx < length items" "indexOf items item = int idx" by blast
    with Some items show ?thesis
      by (auto simp: updateProductInCart_def Cart_findOne_def set_quantity_in_range Cart_save_def
          split: option.splits)
  qed
qed

lemma deleteProductFromCart_state:
  "snd (deleteProductFromCart usr productId s) = s \<or>
   (\<exists>items idx. Carts s (user.email usr) = Some items \<and> idx < length items \<and>
      snd (deleteProductFromCart usr productId s) =
        s\<lparr>Carts := (Carts s)(user.email usr \<mapsto> take idx items @ drop (Suc idx) items)\<rparr>)"
proof (cases "Carts s (user.email usr)")
  case None
  then show ?thesis by (simp add: deleteProductFromCart_def Cart_findOne_def)
next
  case items: (Some items)
  show ?thesis
  proof (cases "find (\<lambda>ele. p_id (product ele) = productId) items")
    case None
    with items show ?thesis
      by (simp add: deleteProductFromCart_def Cart_findOne_def)
  next
    case (Some item)
    from find_indexOf [OF Some] obtain idx
      where idx: "idx < length items" "indexOf items item = int idx" by blast
    with Some items show ?thesis
      by (auto simp: deleteProductFromCart_def Cart_findOne_def splice1_in_range Cart_save_def)
  qed
qed

lemma checkout_Users: "Users (snd (snd (checkout usr s))) = Users s"
  by (simp add: checkout_def Cart_findOne_def Cart_save_def Let_def split: option.splits)

lemma checkout_state:
  "snd (snd (checkout usr s)) = s \<or>
   snd (snd (checkout usr s)) = s\<lparr>Carts := (Carts s)(user.email usr \<mapsto> [])\<rparr>"
  by (simp add: checkout_def Cart_findOne_def Cart_save_def Let_def split: option.splits)

lemma unique_products_update:
  "idx < length items \<Longrightarrow>
     unique_products (items[idx := (items ! idx)\<lparr>quantity := qty\<rparr>]) = unique_products items"
proof -
  assume "idx < length items"
  then have "(map (\<lambda>ele. p_id (product ele)) items)[idx := p_id (product (items ! idx))] =
      map (\<lambda>ele. p_id (product ele)) items"
    by (simp add: list_update_same_conv)
  then show ?thesis
    by (simp add: unique_products_def map_update)
qed

lemma distinct_remove_nth:
  "distinct ys \<Longrightarrow> distinct (take i ys @ drop (Suc i) ys)"
  by (simp add: set_take_disj_set_drop_if_distinct)

lemma unique_products_remove:
  "unique_products items \<Longrightarrow> unique_products (take idx items @ drop (Suc idx) items)"
  using distinct_remove_nth [of "map (\<lambda>ele. p_id (product ele)) items" idx]
  by (simp add: unique_products_def take_map drop_map)

lemma unique_products_append:
  "unique_products items \<Longrightarrow> p_id prd \<notin> set (map (\<lambda>ele. p_id (product ele)) items) \<Longrightarrow>
     unique_products (items @ [\<lparr>product = prd, quantity = qty\<rparr>])"
  by (simp add: unique_products_def)

lemma quantities_positive_update:
  "quantities_positive items \<Longrightarrow> at_least_one qty \<Longrightarrow>
     quantities_positive (items[idx := (items ! idx)\<lparr>quantity := qty\<rparr>])"
  using set_update_subset_insert [of items idx "(items ! idx)\<lparr>quantity := qty\<rparr>"]
  by (auto simp: quantities_positive_def list_all_iff)

lemma quantities_positive_remove:
  "quantities_positive items \<Longrightarrow> quantities_positive (take idx items @ drop (Suc idx) items)"
  by (auto simp: quantities_positive_def list_all_iff dest: in_set_takeD in_set_dropD)

lemma quantities_positive_append:
  "quantities_positive items \<Longrightarrow> at_least_one qty \<Longrightarrow>
     quantities_positive (items @ [\<lparr>product = prd, quantity = qty\<rparr>])"
  by (simp add: quantities_positive_def)

lemma cart_at_Some: "cart_at P s e \<Longrightarrow> Carts s e = Some items \<Longrightarrow> P items"
  by (simp add: cart_at_def)

lemma cart_at_other:
  "cart_at P s e \<Longrightarrow> e \<noteq> k \<Longrightarrow> cart_at P (s\<lparr>Carts := (Carts s)(k \<mapsto> items')\<rparr>) e"
  by (simp add: cart_at_def)

lemma cart_at_same:
  "P items' \<Longrightarrow> cart_at P (s\<lparr>Carts := (Carts s)(k \<mapsto> items')\<rparr>) k"
  by (simp add: cart_at_def)

lemma add_unique:
  assumes "cart_at unique_products s e"
  shows "cart_at unique_products (snd (addProductToCart usr productId qty s)) e"
proof (cases "e = user.email usr")
  case False
  with assms addProductToCart_state [of usr productId qty s] show ?thesis
    by (auto intro: cart_at_other)
next
  case True
  from addProductToCart_state [of usr productId qty s] show ?thesis
  proof (elim disjE exE conjE)
    assume "snd (addProductToCart usr productId qty s) = s"
    with assms show ?thesis by simp
  next
    fix prd
    assume "snd (addProductToCart usr productId qty s) =
         s\<lparr>Carts := (Carts s)(user.email usr \<mapsto> [\<lparr>product = prd, quantity = qty\<rparr>])\<rparr>"
    with True show ?thesis
      by (simp add: cart_at_same unique_products_def)
  next
    fix prd items
    assume a: "p_id prd = productId" "Carts s (user.email usr) = Some items"
      "productId \<notin> set (map (\<lambda>ele. p_id (product ele)) items)"
      "snd (addProductToCart usr productId qty s) =
            s\<lparr>Carts := (Carts s)(user.email usr \<mapsto> items @ [\<lparr>product = prd, quantity = qty\<rparr>])\<rparr>"
    from assms True a(2) have "unique_products items"
      by (auto dest: cart_at_Some)
    with a(1,3) have "unique_products (items @ [\<lparr>product = prd, quantity = qty\<rparr>])"
      by (auto intro: unique_products_append)
    with True a(4) show ?thesis
      by (simp add: cart_at_same)
  qed
qed

lemma add_positive:
  assumes "cart_at quantities_positive s e" and "at_least_one qty"
  shows "cart_at quantities_positive (snd (addProductToCart usr productId qty s)) e"
proof (cases "e = user.email usr")
  case False
  with assms addProductToCart_state [of usr productId qty s] show ?thesis
    by (auto intro: cart_at_other)
next
  case True
  from addProductToCart_state [of usr productId qty s] show ?thesis
  proof (elim disjE exE conjE)
    assume "snd (addProductToCart usr productId qty s) = s"
    with assms show ?thesis by simp
  next
    fix prd
    assume "snd (addProductToCart usr productId qty s) =
         s\<lparr>Carts := (Carts s)(user.email usr \<mapsto> [\<lparr>product = prd, quantity = qty\<rparr>])\<rparr>"
    with True assms(2) show ?thesis
      by (simp add: cart_at_same quantities_positive_def)
  next
    fix prd items
    assume a: "Carts s (user.email usr) = Some items"
      "snd (addProductToCart usr productId qty s) =
            s\<lparr>Carts := (Carts s)(user.email usr \<mapsto> items @ [\<lparr>product = prd, quantity = qty\<rparr>])\<rparr>"
    from assms True a(1) have "quantities_positive items"
      by (auto dest: cart_at_Some)
    with assms(2) have "quantities_positive (items @ [\<lparr>product = prd, quantity = qty\<rparr>])"
      by (simp add: quantities_positive_append)
    with True a(2) show ?thesis
      by (simp add: cart_at_same)
  qed
qed

lemma update_unique:
  assumes "cart_at unique_products s e"
  shows "cart_at unique_products (snd (updateProductInCart usr productId qty s)) e"
proof (cases "e = user.email usr")
  case False
  with assms updateProductInCart_state [of usr productId qty s] show ?thesis
    by (auto intro: cart_at_other)
next
  case True
  with assms updateProductInCart_state [of usr productId qty s] show ?thesis
    by (auto simp: cart_at_same unique_products_update dest: cart_at_Some)
qed

lemma update_positive:
  assumes "cart_at quantities_positive s e" and "at_least_one qty"
  shows "cart_at quantities_positive (snd (updateProductInCart usr productId qty s)) e"
proof (cases "e = user.email usr")
  case False
  with assms updateProductInCart_state [of usr productId qty s] show ?thesis
    by (auto intro: cart_at_other)
next
  case True
  with assms updateProductInCart_state [of usr productId qty s] show ?thesis
    by (auto simp: cart_at_same quantities_positive_update dest: cart_at_Some)
qed

lemma delete_preserves:
  assumes "cart_at P s e"
    and "\<And>items idx. P items \<Longrightarrow> P (take idx items @ drop (Suc idx) items)"
  shows "cart_at P (snd (deleteProductFromCart usr productId s)) e"
proof (cases "e = user.email usr")
  case False
  with assms(1) deleteProductFromCart_state [of usr productId s] show ?thesis
    by (auto intro: cart_at_other)
next
  case True
  with assms deleteProductFromCart_state [of usr productId s] show ?thesis
    by (auto simp: cart_at_same dest: cart_at_Some)
qed

lemma checkout_preserves:
  assumes "cart_at P s e" and "P []"
  shows "cart_at P (snd (snd (checkout usr s))) e"
  using assms checkout_state [of usr s]
  by (cases "e = user.email usr") (auto simp: cart_at_same intro: cart_at_other)

section \<open>The total of a cart\<close>

lemma is_integer_Num:
  assumes "is_integer x"
  obtains a where "a \<in> \<int>" and "x = Num a"
proof (cases x)
  case (Num a)
  with assms have "of_int \<lfloor>a\<rfloor> = a" by (simp add: is_integer_def)
  then have "a \<in> \<int>" by (metis Ints_of_int)
  with Num that show ?thesis by blast
qed (use assms in \<open>simp_all add: is_integer_def\<close>)

lemma is_integer_iff: "is_integer (Num a) \<longleftrightarrow> a \<in> \<int>"
proof
  assume "is_integer (Num a)"
  then have "of_int \<lfloor>a\<rfloor> = a" by (simp add: is_integer_def)
  then show "a \<in> \<int>" by (metis Ints_of_int)
next
  assume "a \<in> \<int>"
  then show "is_integer (Num a)" by (auto simp: is_integer_def elim: Ints_cases)
qed

lemma abs_total_nonneg: "0 \<le> abs_total items"
  by (auto simp: abs_total_def intro!: sum_list_nonneg)

lemma total_loop_exact:
  assumes "integer_items items" and "a \<in> \<int>" and "\<bar>a\<bar> + abs_total items \<le> 2 ^ 53"
  shows "foldl (\<lambda>sum ele. js_add sum (js_mul (cost (product ele)) (quantity ele))) (Num a) items =
           Num (a + exact_total items)"
  using assms
proof (induction items arbitrary: a)
  case Nil
  then show ?case by (simp add: exact_total_def)
next
  case (Cons ele items)
  from Cons.prems(1) have ic: "is_integer (cost (product ele))" and iq: "is_integer (quantity ele)"
    and rest: "integer_items items"
    by (simp_all add: integer_items_def)
  from ic obtain c where c: "c \<in> \<int>" "cost (product ele) = Num c" by (rule is_integer_Num)
  from iq obtain q where q: "q \<in> \<int>" "quantity ele = Num q" by (rule is_integer_Num)
  have split: "abs_total (ele # items) = \<bar>c * q\<bar> + abs_total items"
    and esplit: "exact_total (ele # items) = c * q + exact_total items"
    using c(2) q(2) by (simp_all add: abs_total_def exact_total_def)
  have nn: "0 \<le> abs_total items" by (rule abs_total_nonneg)
  from Cons.prems(3) split nn have bp: "\<bar>c * q\<bar> \<le> 2 ^ 53" and bs: "\<bar>a\<bar> + \<bar>c * q\<bar> \<le> 2 ^ 53"
    by linarith+
  have cq: "c * q \<in> \<int>" using c(1) q(1) by (rule Ints_mult)
  have m: "js_mul (cost (product ele)) (quantity ele) = Num (c * q)"
    using cq bp by (simp add: c(2) q(2) round_double_Ints)
  have acq: "a + c * q \<in> \<int>" using Cons.prems(2) cq by (rule Ints_add)
  have "\<bar>a + c * q\<bar> \<le> \<bar>a\<bar> + \<bar>c * q\<bar>" by (rule abs_triangle_ineq)
  with bs have ba: "\<bar>a + c * q\<bar> \<le> 2 ^ 53" by linarith
  have s: "round_double (a + c * q) = Num (a + c * q)"
    using acq ba by (rule round_double_Ints)
  have "\<bar>a + c * q\<bar> + abs_total items \<le> 2 ^ 53"
    using Cons.prems(3) split abs_triangle_ineq [of a "c * q"] by linarith
  from Cons.IH [OF rest acq this] show ?case
    by (simp add: m s esplit add.assoc)
qed

lemma cart_total_exact:
  assumes "integer_items items" and "abs_total items \<le> 2 ^ 53"
  shows "cart_total items = Num (exact_total items)"
  using total_loop_exact [of items 0] assms by (simp add: cart_total_def)

lemma js_sub_exact:
  assumes "a \<in> \<int>" and "b \<in> \<int>" and "\<bar>a - b\<bar> \<le> 2 ^ 53"
  shows "js_sub (Num a) (Num b) = Num (a - b)"
proof -
  have "a - b \<in> \<int>" using assms(1,2) by (rule Ints_diff)
  with assms(3) show ?thesis
    by (simp add: js_sub_def round_double_Ints)
qed

lemma exact_total_Ints: "integer_items items \<Longrightarrow> exact_total items \<in> \<int>"
proof (induction items)
  case Nil
  then show ?case by (simp add: exact_total_def)
next
  case (Cons ele items)
  then have "is_integer (cost (product ele))" "is_integer (quantity ele)" "integer_items items"
    by (simp_all add: integer_items_def)
  with Cons.IH show ?case
    by (auto simp: exact_total_def elim!: is_integer_Num)
qed

lemma large_product: "round_double (94906267 * 94906267) = Num 9007199515875288"
  by code_simp

lemma large_sum: "round_double (0 + 9007199515875288) = Num 9007199515875288"
  by code_simp

lemma large_difference: "round_double (100 + - 9007199515875288) = Num (- 9007199515875188)"
  by code_simp

section \<open>Checkout\<close>

text \<open>
  C1, amended. When the user's cart exists and has at least one line item, the address
  check passes and the wallet balance is truthy, \<^verbatim>\<open>checkout\<close> succeeds and returns nothing;
  the wallet of the user object becomes the balance minus the total, where the total is
  accumulated over the line items from their embedded cost and quantity (the catalog is
  not consulted) and every product, partial sum and the difference is rounded to a double;
  the cart is saved with no line items. The debit is exactly the sum of cost times quantity
  when balance, costs and quantities are integers, the absolute values of the products add
  up to at most \<open>2 ^ 53\<close> and so does the absolute value of the new balance. Nothing compares
  the balance with the total, so the new balance may be negative.
\<close>

theorem checkout_success:
  assumes "Carts s (user.email usr) = Some items"
    and "items \<noteq> []"
    and "hasSetNonDefaultAddress usr"
    and "walletMoney usr = Some w"
    and "\<not> falsy (Some w)"
  shows "checkout usr s =
           (Inr Undefined,
            usr\<lparr>walletMoney := Some (js_sub w (cart_total items))\<rparr>,
            s\<lparr>Carts := (Carts s)(user.email usr \<mapsto> [])\<rparr>) \<and>
         (is_integer w \<and> integer_items items \<and> abs_total items \<le> 2 ^ 53 \<and>
          \<bar>value_of w - exact_total items\<bar> \<le> 2 ^ 53 \<longrightarrow>
            walletMoney (fst (snd (checkout usr s))) =
              Some (Num (value_of w - exact_total items)))"
proof -
  have run: "checkout usr s =
           (Inr Undefined,
            usr\<lparr>walletMoney := Some (js_sub w (cart_total items))\<rparr>,
            s\<lparr>Carts := (Carts s)(user.email usr \<mapsto> [])\<rparr>)"
    using assms by (simp add: checkout_def Cart_findOne_def Cart_save_def to_number_def)
  have "walletMoney (fst (snd (checkout usr s))) = Some (Num (value_of w - exact_total items))"
    if h: "is_integer w" "integer_items items" "abs_total items \<le> 2 ^ 53"
      "\<bar>value_of w - exact_total items\<bar> \<le> 2 ^ 53"
  proof -
    from h(1) obtain n where n: "n \<in> \<int>" "w = Num n" by (rule is_integer_Num)
    have t: "cart_total items = Num (exact_total items)"
      using h(2,3) by (rule cart_total_exact)
    have "js_sub (Num n) (Num (exact_total items)) = Num (n - exact_total items)"
      using n(1) exact_total_Ints [OF h(2)] h(4) by (intro js_sub_exact) (simp_all add: n(2))
    with t show ?thesis
      by (simp add: run n(2))
  qed
  with run show ?thesis by blast
qed

text \<open>
  The spec's example (wallet 100, total 25, balance 75 afterwards), and a wallet of 5 that
  the same cart takes to -20.
\<close>

theorem checkout_success_witness:
  "checkout (alice\<lparr>walletMoney := Some (Num 5)\<rparr>) (with_cart example_items) =
     (Inr Undefined, alice\<lparr>walletMoney := Some (Num (- 20))\<rparr>, with_cart []) \<and>
   checkout alice (with_cart example_items) =
     (Inr Undefined, alice\<lparr>walletMoney := Some (Num 75)\<rparr>, with_cart [])"
proof -
  let ?s = "with_cart example_items"
  let ?poor = "alice\<lparr>walletMoney := Some (Num 5)\<rparr>"
  have cart: "Carts ?s (user.email ?poor) = Some example_items"
    "Carts ?s (user.email alice) = Some example_items"
    and ne: "example_items \<noteq> []"
    and addr: "hasSetNonDefaultAddress ?poor" "hasSetNonDefaultAddress alice"
    and wallet: "walletMoney ?poor = Some (Num 5)" "walletMoney alice = Some (Num 100)"
    and truthy: "\<not> falsy (Some (Num 5))" "\<not> falsy (Some (Num 100))"
    by (simp_all add: example_defs falsy_def)
  have ints: "is_integer (Num 5)" "is_integer (Num 100)" "integer_items example_items"
    by (simp_all add: integer_items_def is_integer_def example_defs)
  have totals: "abs_total example_items = 25" "exact_total example_items = 25"
    by (simp_all add: abs_total_def exact_total_def example_defs)
  have bounds: "abs_total example_items \<le> 2 ^ 53"
    "\<bar>value_of (Num 5) - exact_total example_items\<bar> \<le> 2 ^ 53"
    "\<bar>value_of (Num 100) - exact_total example_items\<bar> \<le> 2 ^ 53"
    by (simp_all add: totals)
  note p = checkout_success [OF cart(1) ne addr(1) wallet(1) truthy(1)]
  note r = checkout_success [OF cart(2) ne addr(2) wallet(2) truthy(2)]
  from p have poor: "checkout ?poor ?s =
      (Inr Undefined, ?poor\<lparr>walletMoney := Some (js_sub (Num 5) (cart_total example_items))\<rparr>,
       ?s\<lparr>Carts := (Carts ?s)(user.email ?poor \<mapsto> [])\<rparr>)"
    by (rule conjunct1)
  from p ints bounds have "walletMoney (fst (snd (checkout ?poor ?s))) =
      Some (Num (value_of (Num 5) - exact_total example_items))"
    by blast
  then have poor_wallet: "walletMoney (fst (snd (checkout ?poor ?s))) = Some (Num (- 20))"
    by (simp add: totals)
  from r have rich: "checkout alice ?s =
      (Inr Undefined, alice\<lparr>walletMoney := Some (js_sub (Num 100) (cart_total example_items))\<rparr>,
       ?s\<lparr>Carts := (Carts ?s)(user.email alice \<mapsto> [])\<rparr>)"
    by (rule conjunct1)
  from r ints bounds have "walletMoney (fst (snd (checkout alice ?s))) =
      Some (Num (value_of (Num 100) - exact_total example_items))"
    by blast
  then have rich_wallet: "walletMoney (fst (snd (checkout alice ?s))) = Some (Num 75)"
    by (simp add: totals)
  from poor poor_wallet have "js_sub (Num 5) (cart_total example_items) = Num (- 20)"
    by simp
  moreover from rich rich_wallet have "js_sub (Num 100) (cart_total example_items) = Num 75"
    by simp
  ultimately show ?thesis
    using poor rich by (simp add: example_defs)
qed

text \<open>
  With one line item of cost 94906267 and quantity 94906267 the product is odd and lies
  above \<open>2 ^ 53\<close>: it is rounded to the even neighbour, and a wallet of 100 ends one above
  the exact difference.
\<close>

theorem checkout_debit_rounded:
  "Carts (with_cart large_items) (user.email alice) = Some large_items \<and>
   large_items \<noteq> [] \<and> hasSetNonDefaultAddress alice \<and>
   walletMoney alice = Some (Num 100) \<and> \<not> falsy (Some (Num 100)) \<and>
   exact_total large_items = 9007199515875289 \<and>
   checkout alice (with_cart large_items) =
     (Inr Undefined, alice\<lparr>walletMoney := Some (Num (- 9007199515875188))\<rparr>, with_cart []) \<and>
   Num (- 9007199515875188) \<noteq> Num (100 - exact_total large_items)"
  using large_product large_sum large_difference
  by (simp add: checkout_def Cart_findOne_def Cart_save_def to_number_def falsy_def
      cart_total_def js_sub_def exact_total_def example_defs)

text \<open>
  C2. A successful \<^verbatim>\<open>checkout\<close> is to persist the emptied cart and the debited wallet.
  The source saves the cart only: \<^verbatim>\<open>user.walletMoney -= sum\<close> changes the user object in
  memory and no \<^verbatim>\<open>user.save()\<close> follows. On the spec's example the call succeeds, the
  object it was given ends with a balance of 75, and the user collection still holds the
  balance of 100. No call writes the user collection (\<open>checkout_Users\<close>).
\<close>

theorem checkout_wallet_not_persisted:
  "checkout alice (with_cart example_items) =
     (Inr Undefined, alice\<lparr>walletMoney := Some (Num 75)\<rparr>, with_cart []) \<and>
   Users (with_cart example_items) ''alice'' = Some alice \<and>
   Users (snd (snd (checkout alice (with_cart example_items)))) ''alice'' = Some alice \<and>
   walletMoney alice = Some (Num 100)"
  by (simp add: checkout_def Cart_findOne_def falsy_def Cart_save_def cart_total_def
      to_number_def js_sub_def round_double_Ints example_defs)

text \<open>
  C3. \<^verbatim>\<open>checkout\<close> fails with 404 when the user has no cart; with 400 when the cart
  has no line items; with 400 when the user has no non-default address; and with 400
  "Insufficient balance" when the wallet balance is unset, exactly 0 or NaN. The checks come in
  this order: a missing or empty cart is reported whatever the address and the wallet are,
  and a missing address whatever the wallet is. Each failure leaves the user object and
  every store as they were.
\<close>

theorem checkout_failures:
  "(Carts s (user.email usr) = None \<longrightarrow>
      checkout usr s = (Inl (ApiError NOT_FOUND ''User does not have a cart''), usr, s)) \<and>
   (Carts s (user.email usr) = Some [] \<longrightarrow>
      checkout usr s = (Inl (ApiError BAD_REQUEST ''User cart is empty''), usr, s)) \<and>
   (\<forall>items. Carts s (user.email usr) = Some items \<and> items \<noteq> [] \<and>
        \<not> hasSetNonDefaultAddress usr \<longrightarrow>
      checkout usr s = (Inl (ApiError BAD_REQUEST ''Default address is not set''), usr, s)) \<and>
   (\<forall>items. Carts s (user.email usr) = Some items \<and> items \<noteq> [] \<and>
        hasSetNonDefaultAddress usr \<and>
        (walletMoney usr = None \<or> walletMoney usr = Some (Num 0) \<or>
         walletMoney usr = Some NaN) \<longrightarrow>
      checkout usr s = (Inl (ApiError BAD_REQUEST ''Insufficient balance''), usr, s))"
  by (auto simp: checkout_def Cart_findOne_def falsy_def split: option.splits)

theorem checkout_failures_witness:
  "checkout alice no_carts =
     (Inl (ApiError NOT_FOUND ''User does not have a cart''), alice, no_carts) \<and>
   checkout alice (with_cart []) =
     (Inl (ApiError BAD_REQUEST ''User cart is empty''), alice, with_cart []) \<and>
   checkout (alice\<lparr>hasSetNonDefaultAddress := False, walletMoney := None\<rparr>) (with_cart example_items) =
     (Inl (ApiError BAD_REQUEST ''Default address is not set''),
      alice\<lparr>hasSetNonDefaultAddress := False, walletMoney := None\<rparr>, with_cart example_items) \<and>
   checkout (alice\<lparr>walletMoney := Some (Num 0)\<rparr>) (with_cart example_items) =
     (Inl (ApiError BAD_REQUEST ''Insufficient balance''),
      alice\<lparr>walletMoney := Some (Num 0)\<rparr>, with_cart example_items) \<and>
   checkout (alice\<lparr>walletMoney := None\<rparr>) (with_cart example_items) =
     (Inl (ApiError BAD_REQUEST ''Insufficient balance''),
      alice\<lparr>walletMoney := None\<rparr>, with_cart example_items) \<and>
   checkout (alice\<lparr>walletMoney := Some NaN\<rparr>) (with_cart example_items) =
     (Inl (ApiError BAD_REQUEST ''Insufficient balance''),
      alice\<lparr>walletMoney := Some NaN\<rparr>, with_cart example_items)"
  using checkout_failures [of no_carts alice]
    checkout_failures [of "with_cart []" alice]
    checkout_failures [of "with_cart example_items"
      "alice\<lparr>hasSetNonDefaultAddress := False, walletMoney := None\<rparr>"]
    checkout_failures [of "with_cart example_items" "alice\<lparr>walletMoney := Some (Num 0)\<rparr>"]
    checkout_failures [of "with_cart example_items" "alice\<lparr>walletMoney := None\<rparr>"]
    checkout_failures [of "with_cart example_items" "alice\<lparr>walletMoney := Some NaN\<rparr>"]
  by (simp add: example_defs)

section \<open>Adding a product\<close>

text \<open>
  C4, amended. Let \<open>productId\<close> resolve in the catalog, and let the user's cart either
  be absent (with \<^verbatim>\<open>Cart.create\<close> succeeding) or hold no line item for \<open>productId\<close>. Then
  of two calls of \<^verbatim>\<open>addProductToCart\<close> with this \<open>productId\<close> the first succeeds and leaves
  the stored cart, which it returns, with exactly one line item for the product; the second
  fails with 400 "Product already in cart" and changes nothing, so the cart still has
  exactly one such line item.
\<close>

theorem addProductToCart_twice:
  assumes "Product_findOne s productId = Some prd"
    and "(Carts s (user.email usr) = None \<and> Cart_create_outcome s = Created) \<or>
         (\<exists>items. Carts s (user.email usr) = Some items \<and>
                   productId \<notin> set (map (\<lambda>ele. p_id (product ele)) items))"
  shows "\<exists>c1 s1.
           addProductToCart usr productId qty1 s = (Inr (RCart c1), s1) \<and>
           Carts s1 (user.email usr) = Some (cartItems c1) \<and>
           count_product productId (cartItems c1) = 1 \<and>
           addProductToCart usr productId qty2 s1 =
             (Inl (ApiError BAD_REQUEST
                ''Product already in cart. Use the cart sidebar to update or remove product from cart''),
              s1)"
proof -
  from assms(1) have pid: "p_id prd = productId"
    by (rule Product_findOne_id)
  let ?new = "\<lparr>product = prd, quantity = qty1\<rparr>"
  from assms(2) show ?thesis
  proof (elim disjE conjE exE)
    assume none: "Carts s (user.email usr) = None" and ok: "Cart_create_outcome s = Created"
    let ?s1 = "s\<lparr>Carts := (Carts s)(user.email usr \<mapsto> [?new])\<rparr>"
    have first: "addProductToCart usr productId qty1 s =
        (Inr (RCart \<lparr>cart.email = user.email usr, cartItems = [?new]\<rparr>), ?s1)"
      using assms(1) none ok
      by (simp add: addProductToCart_def Cart_findOne_def Cart_create_def Cart_save_def)
    have p1: "Product_findOne ?s1 productId = Some prd"
      using assms(1) by (simp add: Product_findOne_def)
    have second: "addProductToCart usr productId qty2 ?s1 =
        (Inl (ApiError BAD_REQUEST
           ''Product already in cart. Use the cart sidebar to update or remove product from cart''), ?s1)"
      using p1 pid by (simp add: addProductToCart_def Cart_findOne_def)
    have "count_product productId [?new] = 1"
      using pid by (simp add: count_product_def)
    with first second show ?thesis by simp
  next
    fix items
    assume some: "Carts s (user.email usr) = Some items"
      and absent: "productId \<notin> set (map (\<lambda>ele. p_id (product ele)) items)"
    let ?s1 = "s\<lparr>Carts := (Carts s)(user.email usr \<mapsto> items @ [?new])\<rparr>"
    from absent have nf: "find (\<lambda>ele. p_id (product ele) = productId) items = None"
      using find_None_iff_ids [of productId items] by blast
    have first: "addProductToCart usr productId qty1 s =
        (Inr (RCart \<lparr>cart.email = user.email usr, cartItems = items @ [?new]\<rparr>), ?s1)"
      using assms(1) some nf
      by (simp add: addProductToCart_def Cart_findOne_def Cart_save_def)
    have p1: "Product_findOne ?s1 productId = Some prd"
      using assms(1) by (simp add: Product_findOne_def)
    from find_appended [of ?new productId items] pid obtain item
      where f: "find (\<lambda>ele. p_id (product ele) = productId) (items @ [?new]) = Some item"
      by auto
    have second: "addProductToCart usr productId qty2 ?s1 =
        (Inl (ApiError BAD_REQUEST
           ''Product already in cart. Use the cart sidebar to update or remove product from cart''), ?s1)"
      using p1 f by (simp add: addProductToCart_def Cart_findOne_def)
    have "count_product productId (items @ [?new]) = 1"
      using count_product_absent [OF absent] pid by (simp add: count_product_def)
    with first second show ?thesis by simp
  qed
qed

theorem addProductToCart_twice_witness:
  "addProductToCart alice ''B'' (Num 1) (with_cart [\<lparr>product = productA, quantity = Num 2\<rparr>]) =
     (Inr (RCart \<lparr>cart.email = ''alice'', cartItems = example_items\<rparr>), with_cart example_items) \<and>
   count_product ''B'' example_items = 1 \<and>
   addProductToCart alice ''B'' (Num 5) (with_cart example_items) =
     (Inl (ApiError BAD_REQUEST
        ''Product already in cart. Use the cart sidebar to update or remove product from cart''),
      with_cart example_items)"
proof -
  let ?s = "with_cart [\<lparr>product = productA, quantity = Num 2\<rparr>]"
  have h: "Product_findOne ?s ''B'' = Some productB"
    by (simp add: example_defs Product_findOne_def)
  have c: "(Carts ?s (user.email alice) = None \<and> Cart_create_outcome ?s = Created) \<or>
         (\<exists>items. Carts ?s (user.email alice) = Some items \<and>
                   ''B'' \<notin> set (map (\<lambda>ele. p_id (product ele)) items))"
    by (simp add: example_defs)
  have first: "addProductToCart alice ''B'' (Num 1) ?s =
     (Inr (RCart \<lparr>cart.email = ''alice'', cartItems = example_items\<rparr>), with_cart example_items)"
    by (simp add: addProductToCart_def Product_findOne_def Cart_findOne_def Cart_save_def
        example_defs)
  from addProductToCart_twice [OF h c, of "Num 1" "Num 5"] first show ?thesis
    by auto
qed

text \<open>
  Without the condition on the cart the first call need not succeed: on a cart that
  already holds product A, the first call to add A is the one that is refused.
\<close>

theorem addProductToCart_first_call_fails:
  "Product_findOne (with_cart example_items) ''A'' = Some productA \<and>
   Carts (with_cart example_items) (user.email alice) = Some example_items \<and>
   addProductToCart alice ''A'' (Num 1) (with_cart example_items) =
     (Inl (ApiError BAD_REQUEST
        ''Product already in cart. Use the cart sidebar to update or remove product from cart''),
      with_cart example_items)"
  by (simp add: addProductToCart_def Product_findOne_def Cart_findOne_def example_defs)

text \<open>
  C5. When \<open>productId\<close> does not resolve in the product catalog, \<^verbatim>\<open>addProductToCart\<close>
  fails with 400 "Product doesn't exist in database" whatever the state of the cart is
  (absent, empty or holding any line items), and no store is written.
\<close>

theorem addProductToCart_unknown_product:
  "Product_findOne s productId = None \<Longrightarrow>
     addProductToCart usr productId qty s =
       (Inl (ApiError BAD_REQUEST ''Product doesn't exist in database''), s)"
  by (simp add: addProductToCart_def)

theorem addProductToCart_unknown_product_witness:
  "Product_findOne no_carts ''C'' = None \<and>
   addProductToCart alice ''C'' (Num 1) no_carts =
     (Inl (ApiError BAD_REQUEST ''Product doesn't exist in database''), no_carts) \<and>
   Product_findOne (with_cart []) ''C'' = None \<and>
   addProductToCart alice ''C'' (Num 1) (with_cart []) =
     (Inl (ApiError BAD_REQUEST ''Product doesn't exist in database''), with_cart [])"
proof -
  have h1: "Product_findOne no_carts ''C'' = None"
    by (simp add: Product_findOne_def example_defs)
  have h2: "Product_findOne (with_cart []) ''C'' = None"
    by (simp add: Product_findOne_def example_defs)
  show ?thesis
    using h1 h2 addProductToCart_unknown_product [OF h1, of alice "Num 1"]
      addProductToCart_unknown_product [OF h2, of alice "Num 1"]
    by simp
qed

text \<open>
  What \<^verbatim>\<open>addProductToCart\<close> does for a user without a cart and a \<open>productId\<close> that resolves
  in the catalog to \<open>prd\<close>, by the outcome of \<^verbatim>\<open>Cart.create\<close>: the cart with the single line
  item is stored and returned; or the call fails with 500; or the rejection of the store
  leaves the function as it came.
\<close>

lemma addProductToCart_without_cart:
  assumes "Carts s (user.email usr) = None"
    and "Product_findOne s productId = Some prd"
  shows "p_id prd = productId \<and>
         (Cart_create_outcome s = Created \<longrightarrow>
            addProductToCart usr productId qty s =
              (Inr (RCart \<lparr>cart.email = user.email usr,
                            cartItems = [\<lparr>product = prd, quantity = qty\<rparr>]\<rparr>),
               s\<lparr>Carts := (Carts s)(user.email usr \<mapsto> [\<lparr>product = prd, quantity = qty\<rparr>])\<rparr>)) \<and>
         (Cart_create_outcome s = ReturnsFalsy \<longrightarrow>
            addProductToCart usr productId qty s =
              (Inl (ApiError INTERNAL_SERVER_ERROR ''Internal Server Error''), s)) \<and>
         (Cart_create_outcome s = Rejects \<longrightarrow>
            addProductToCart usr productId qty s = (Inl StoreError, s))"
  using assms Product_findOne_id [OF assms(2)]
  by (simp add: addProductToCart_def Cart_findOne_def Cart_create_def Cart_save_def)

text \<open>
  C6. For a user without a cart and a \<open>productId\<close> that resolves in the catalog,
  \<^verbatim>\<open>addProductToCart\<close> is to create the cart with the single line item and return it, and to
  fail with 500 "Internal Server Error" when the creation fails, as its comment also says.
  The source tests the value that \<^verbatim>\<open>Cart.create\<close> hands back and nothing else: when the
  creation rejects, the \<^verbatim>\<open>await\<close> throws, no handler is around it, and the caller gets
  the error of the store instead of the 500.
\<close>

theorem addProductToCart_create_rejects:
  "Carts (no_carts\<lparr>Cart_create_outcome := Rejects\<rparr>) (user.email alice) = None \<and>
   Product_findOne (no_carts\<lparr>Cart_create_outcome := Rejects\<rparr>) ''A'' = Some productA \<and>
   addProductToCart alice ''A'' (Num 3) (no_carts\<lparr>Cart_create_outcome := Rejects\<rparr>) =
     (Inl StoreError, no_carts\<lparr>Cart_create_outcome := Rejects\<rparr>) \<and>
   StoreError \<noteq> ApiError INTERNAL_SERVER_ERROR ''Internal Server Error''"
  by (simp add: addProductToCart_def Product_findOne_def Cart_findOne_def Cart_create_def
      example_defs)

section \<open>Updating and deleting a line item\<close>

text \<open>
  C7. When the user's cart exists and holds no line item for \<open>productId\<close>, and
  \<open>productId\<close> resolves in the catalog, \<^verbatim>\<open>updateProductInCart\<close> fails with 400
  "Product not in cart" and every store, the cart included, is as before.
\<close>

theorem updateProductInCart_not_in_cart:
  assumes "Carts s (user.email usr) = Some items"
    and "productId \<notin> set (map (\<lambda>ele. p_id (product ele)) items)"
    and "Product_findOne s productId = Some prd"
  shows "updateProductInCart usr productId qty s =
           (Inl (ApiError BAD_REQUEST ''Product not in cart''), s)"
  using assms find_None_iff_ids [of productId items]
  by (simp add: updateProductInCart_def Cart_findOne_def)

theorem updateProductInCart_not_in_cart_witness:
  "updateProductInCart alice ''B'' (Num 4) (with_cart [\<lparr>product = productA, quantity = Num 3\<rparr>]) =
     (Inl (ApiError BAD_REQUEST ''Product not in cart''),
      with_cart [\<lparr>product = productA, quantity = Num 3\<rparr>])"
  using updateProductInCart_not_in_cart
    [of "with_cart [\<lparr>product = productA, quantity = Num 3\<rparr>]" alice
        "[\<lparr>product = productA, quantity = Num 3\<rparr>]" "''B''" productB "Num 4"]
  by (simp add: example_defs Product_findOne_def)

text \<open>
  C8. When the user's cart holds a line item for \<open>productId\<close> and \<open>productId\<close> resolves in
  the catalog, \<^verbatim>\<open>updateProductInCart\<close> replaces the quantity of that line item (the first
  one for the product, at position \<open>idx\<close>) by the given value, saves the cart and returns
  it. The list update changes the quantity at \<open>idx\<close> only: the other line items, the order,
  the product snapshot at \<open>idx\<close> and the cart's email stay as they were.
\<close>

theorem updateProductInCart_overwrites:
  assumes "Carts s (user.email usr) = Some items"
    and "productId \<in> set (map (\<lambda>ele. p_id (product ele)) items)"
    and "Product_findOne s productId = Some prd"
  shows "\<exists>idx<length items.
           p_id (product (items ! idx)) = productId \<and>
           (\<forall>j<idx. p_id (product (items ! j)) \<noteq> productId) \<and>
           updateProductInCart usr productId qty s =
             (Inr (RCart \<lparr>cart.email = user.email usr,
                           cartItems = items[idx := (items ! idx)\<lparr>quantity := qty\<rparr>]\<rparr>),
              s\<lparr>Carts := (Carts s)(user.email usr \<mapsto>
                   items[idx := (items ! idx)\<lparr>quantity := qty\<rparr>])\<rparr>)"
proof -
  from find_Some_ids [OF assms(2)] obtain item
    where f: "find (\<lambda>ele. p_id (product ele) = productId) items = Some item" ..
  from find_indexOf [OF f] obtain idx where idx: "idx < length items"
    "indexOf items item = int idx" "items ! idx = item" "p_id (product item) = productId"
    "\<forall>j<idx. p_id (product (items ! j)) \<noteq> productId" by blast
  have "updateProductInCart usr productId qty s =
          (Inr (RCart \<lparr>cart.email = user.email usr,
                        cartItems = items[idx := (items ! idx)\<lparr>quantity := qty\<rparr>]\<rparr>),
           s\<lparr>Carts := (Carts s)(user.email usr \<mapsto>
                items[idx := (items ! idx)\<lparr>quantity := qty\<rparr>])\<rparr>)"
    using assms(1,3) f idx(1,2)
    by (simp add: updateProductInCart_def Cart_findOne_def set_quantity_in_range Cart_save_def)
  with idx show ?thesis by blast
qed

theorem updateProductInCart_overwrites_witness:
  "updateProductInCart alice ''B'' (Num 7) (with_cart example_items) =
     (Inr (RCart \<lparr>cart.email = ''alice'',
                   cartItems = [\<lparr>product = productA, quantity = Num 2\<rparr>,
                                \<lparr>product = productB, quantity = Num 7\<rparr>]\<rparr>),
      with_cart [\<lparr>product = productA, quantity = Num 2\<rparr>, \<lparr>product = productB, quantity = Num 7\<rparr>])"
proof -
  have h1: "Carts (with_cart example_items) (user.email alice) = Some example_items"
    by (simp add: example_defs)
  have h2: "''B'' \<in> set (map (\<lambda>ele. p_id (product ele)) example_items)"
    by (simp add: example_defs)
  have h3: "Product_findOne (with_cart example_items) ''B'' = Some productB"
    by (simp add: example_defs Product_findOne_def)
  from updateProductInCart_overwrites [OF h1 h2 h3, of "Num 7"] obtain idx
    where idx: "idx < length example_items"
      "p_id (product (example_items ! idx)) = ''B''"
      "updateProductInCart alice ''B'' (Num 7) (with_cart example_items) =
         (Inr (RCart \<lparr>cart.email = user.email alice,
                       cartItems = example_items[idx := (example_items ! idx)\<lparr>quantity := Num 7\<rparr>]\<rparr>),
          (with_cart example_items)\<lparr>Carts := (Carts (with_cart example_items))(user.email alice \<mapsto>
               example_items[idx := (example_items ! idx)\<lparr>quantity := Num 7\<rparr>])\<rparr>)"
    by blast
  from idx(1) have "idx = 0 \<or> idx = 1"
    by (auto simp: example_items_def)
  with idx(2) have "idx = 1"
    by (auto simp: example_defs)
  with idx(3) show ?thesis
    by (simp add: example_defs)
qed

text \<open>
  C9, amended. When the user's cart holds a line item for \<open>productId\<close>,
  \<^verbatim>\<open>deleteProductFromCart\<close> removes that line item (the first one for the product) and
  keeps the others in their order, saves the cart, and returns the updated cart. Deleting
  the only line item leaves the cart stored with no line items.
\<close>

theorem deleteProductFromCart_removes:
  assumes "Carts s (user.email usr) = Some items"
    and "productId \<in> set (map (\<lambda>ele. p_id (product ele)) items)"
  shows "\<exists>idx<length items.
           p_id (product (items ! idx)) = productId \<and>
           (\<forall>j<idx. p_id (product (items ! j)) \<noteq> productId) \<and>
           deleteProductFromCart usr productId s =
             (Inr (RCart \<lparr>cart.email = user.email usr,
                           cartItems = take idx items @ drop (Suc idx) items\<rparr>),
              s\<lparr>Carts := (Carts s)(user.email usr \<mapsto> take idx items @ drop (Suc idx) items)\<rparr>) \<and>
           (length items = 1 \<longrightarrow>
              Carts (snd (deleteProductFromCart usr productId s)) (user.email usr) = Some [])"
proof -
  from find_Some_ids [OF assms(2)] obtain item
    where f: "find (\<lambda>ele. p_id (product ele) = productId) items = Some item" ..
  from find_indexOf [OF f] obtain idx where idx: "idx < length items"
    "indexOf items item = int idx" "items ! idx = item" "p_id (product item) = productId"
    "\<forall>j<idx. p_id (product (items ! j)) \<noteq> productId" by blast
  have eq: "deleteProductFromCart usr productId s =
          (Inr (RCart \<lparr>cart.email = user.email usr,
                        cartItems = take idx items @ drop (Suc idx) items\<rparr>),
           s\<lparr>Carts := (Carts s)(user.email usr \<mapsto> take idx items @ drop (Suc idx) items)\<rparr>)"
    using assms(1) f idx(1,2)
    by (simp add: deleteProductFromCart_def Cart_findOne_def splice1_in_range Cart_save_def)
  have "length items = 1 \<longrightarrow>
          Carts (snd (deleteProductFromCart usr productId s)) (user.email usr) = Some []"
    using idx(1) by (simp add: eq)
  with eq idx show ?thesis by blast
qed

theorem deleteProductFromCart_removes_witness:
  "deleteProductFromCart alice ''A'' (with_cart example_items) =
     (Inr (RCart \<lparr>cart.email = ''alice'', cartItems = [\<lparr>product = productB, quantity = Num 1\<rparr>]\<rparr>),
      with_cart [\<lparr>product = productB, quantity = Num 1\<rparr>]) \<and>
   Carts (snd (deleteProductFromCart alice ''B'' (with_cart [\<lparr>product = productB, quantity = Num 1\<rparr>])))
     ''alice'' = Some []"
proof -
  have h1: "Carts (with_cart example_items) (user.email alice) = Some example_items"
    by (simp add: example_defs)
  have h2: "''A'' \<in> set (map (\<lambda>ele. p_id (product ele)) example_items)"
    by (simp add: example_defs)
  from deleteProductFromCart_removes [OF h1 h2] obtain idx
    where idx: "idx < length example_items"
      "p_id (product (example_items ! idx)) = ''A''"
      "deleteProductFromCart alice ''A'' (with_cart example_items) =
         (Inr (RCart \<lparr>cart.email = user.email alice,
                       cartItems = take idx example_items @ drop (Suc idx) example_items\<rparr>),
          (with_cart example_items)\<lparr>Carts := (Carts (with_cart example_items))(user.email alice \<mapsto>
               take idx example_items @ drop (Suc idx) example_items)\<rparr>)"
    by blast
  from idx(1) have "idx = 0 \<or> idx = 1"
    by (auto simp: example_items_def)
  with idx(2) have "idx = 0"
    by (auto simp: example_defs)
  with idx(3) have first: "deleteProductFromCart alice ''A'' (with_cart example_items) =
     (Inr (RCart \<lparr>cart.email = ''alice'', cartItems = [\<lparr>product = productB, quantity = Num 1\<rparr>]\<rparr>),
      with_cart [\<lparr>product = productB, quantity = Num 1\<rparr>])"
    by (simp add: example_defs)
  have "Carts (snd (deleteProductFromCart alice ''B'' (with_cart [\<lparr>product = productB, quantity = Num 1\<rparr>])))
     ''alice'' = Some []"
    using deleteProductFromCart_removes
      [of "with_cart [\<lparr>product = productB, quantity = Num 1\<rparr>]" alice
          "[\<lparr>product = productB, quantity = Num 1\<rparr>]" "''B''"]
    by (auto simp: example_defs)
  with first show ?thesis by simp
qed

text \<open>
  The function ends with \<^verbatim>\<open>return cart\<close>: what it returns is the cart, not nothing.
\<close>

theorem deleteProductFromCart_returns_cart:
  "Carts (with_cart example_items) (user.email alice) = Some example_items \<and>
   ''A'' \<in> set (map (\<lambda>ele. p_id (product ele)) example_items) \<and>
   fst (deleteProductFromCart alice ''A'' (with_cart example_items)) =
     Inr (RCart \<lparr>cart.email = ''alice'', cartItems = [\<lparr>product = productB, quantity = Num 1\<rparr>]\<rparr>) \<and>
   fst (deleteProductFromCart alice ''A'' (with_cart example_items)) \<noteq> Inr Undefined"
  by (simp add: deleteProductFromCart_def Cart_findOne_def Cart_save_def splice1_def example_defs)

section \<open>The invariant under the operations\<close>

text \<open>
  C10, amended. Every operation of the cart service keeps the products of each stored
  cart distinct, whatever quantity is supplied. Every operation keeps the quantities of
  each stored cart at 1 or more, provided the quantity given to \<^verbatim>\<open>addProductToCart\<close> or
  \<^verbatim>\<open>updateProductInCart\<close> is itself at least 1; the service stores the quantity it is
  given and does not check it.
\<close>

theorem cart_invariant_preserved:
  "(cart_at unique_products s e \<longrightarrow>
      cart_at unique_products (snd (getCartByUser usr s)) e \<and>
      cart_at unique_products (snd (addProductToCart usr productId qty s)) e \<and>
      cart_at unique_products (snd (updateProductInCart usr productId qty s)) e \<and>
      cart_at unique_products (snd (deleteProductFromCart usr productId s)) e \<and>
      cart_at unique_products (snd (snd (checkout usr s))) e) \<and>
   (cart_at quantities_positive s e \<longrightarrow>
      cart_at quantities_positive (snd (getCartByUser usr s)) e \<and>
      (at_least_one qty \<longrightarrow>
         cart_at quantities_positive (snd (addProductToCart usr productId qty s)) e \<and>
         cart_at quantities_positive (snd (updateProductInCart usr productId qty s)) e) \<and>
      cart_at quantities_positive (snd (deleteProductFromCart usr productId s)) e \<and>
      cart_at quantities_positive (snd (snd (checkout usr s))) e)"
proof (intro conjI impI)
  assume u: "cart_at unique_products s e"
  from u show "cart_at unique_products (snd (getCartByUser usr s)) e"
    by (simp add: getCartByUser_state)
  from u show "cart_at unique_products (snd (addProductToCart usr productId qty s)) e"
    by (rule add_unique)
  from u show "cart_at unique_products (snd (updateProductInCart usr productId qty s)) e"
    by (rule update_unique)
  from u show "cart_at unique_products (snd (deleteProductFromCart usr productId s)) e"
    by (rule delete_preserves) (rule unique_products_remove)
  from u show "cart_at unique_products (snd (snd (checkout usr s))) e"
    by (rule checkout_preserves) (simp add: unique_products_def)
next
  assume q: "cart_at quantities_positive s e"
  from q show "cart_at quantities_positive (snd (getCartByUser usr s)) e"
    by (simp add: getCartByUser_state)
  from q show "cart_at quantities_positive (snd (deleteProductFromCart usr productId s)) e"
    by (rule delete_preserves) (rule quantities_positive_remove)
  from q show "cart_at quantities_positive (snd (snd (checkout usr s))) e"
    by (rule checkout_preserves) (simp add: quantities_positive_def)
  assume "at_least_one qty"
  with q show "cart_at quantities_positive (snd (addProductToCart usr productId qty s)) e"
    by (rule add_positive)
  from q \<open>at_least_one qty\<close>
  show "cart_at quantities_positive (snd (updateProductInCart usr productId qty s)) e"
    by (rule update_positive)
qed

theorem cart_invariant_preserved_witness:
  "cart_at unique_products (with_cart example_items) ''alice'' \<and>
   cart_at quantities_positive (with_cart example_items) ''alice'' \<and>
   cart_at unique_products (snd (addProductToCart alice ''B'' (Num 3) (with_cart example_items))) ''alice'' \<and>
   cart_at unique_products (snd (updateProductInCart alice ''B'' (Num 3) (with_cart example_items))) ''alice'' \<and>
   cart_at unique_products (snd (deleteProductFromCart alice ''B'' (with_cart example_items))) ''alice'' \<and>
   cart_at unique_products (snd (snd (checkout alice (with_cart example_items)))) ''alice'' \<and>
   cart_at quantities_positive (snd (addProductToCart alice ''B'' (Num 3) (with_cart example_items))) ''alice'' \<and>
   cart_at quantities_positive (snd (updateProductInCart alice ''B'' (Num 3) (with_cart example_items))) ''alice'' \<and>
   cart_at quantities_positive (snd (deleteProductFromCart alice ''B'' (with_cart example_items))) ''alice'' \<and>
   cart_at quantities_positive (snd (snd (checkout alice (with_cart example_items)))) ''alice''"
proof -
  have u: "cart_at unique_products (with_cart example_items) ''alice''"
    by (simp add: cart_at_def unique_products_def example_defs)
  have q: "cart_at quantities_positive (with_cart example_items) ''alice''"
    by (simp add: cart_at_def quantities_positive_def at_least_one_def example_defs)
  have n: "at_least_one (Num 3)"
    by (simp add: at_least_one_def)
  from u q n cart_invariant_preserved [of "with_cart example_items" "''alice''" alice "''B''" "Num 3"]
  show ?thesis by blast
qed

text \<open>
  With a quantity of 0 the invariant is lost, by \<^verbatim>\<open>addProductToCart\<close> on a user without
  a cart and by \<^verbatim>\<open>updateProductInCart\<close> on the example cart.
\<close>

theorem cart_invariant_broken_by_zero_quantity:
  "cart_at cart_inv no_carts ''alice'' \<and>
   \<not> cart_at cart_inv (snd (addProductToCart alice ''A'' (Num 0) no_carts)) ''alice'' \<and>
   cart_at cart_inv (with_cart example_items) ''alice'' \<and>
   \<not> cart_at cart_inv (snd (updateProductInCart alice ''A'' (Num 0) (with_cart example_items))) ''alice''"
  by (simp add: cart_at_def cart_inv_def quantities_positive_def at_least_one_def
      unique_products_def
      addProductToCart_def updateProductInCart_def Product_findOne_def Cart_findOne_def
      Cart_create_def Cart_save_def set_quantity_def example_defs)

end
